theory Spec2Isabelle
  imports Complex_Main "HOL-Library.Product_Lexorder"
begin

section \<open>The Equal Area Cylindrical projection (src/projections/cea.cpp)\<close>

text \<open>
  The C++ \<^verbatim>\<open>double\<close> is read as a real number: every statement below is about the
  kernel in exact real arithmetic. Angles are radians, as \<^verbatim>\<open>pj_param(.., "rlat_ts")\<close>
  hands them to the setup.
\<close>

subsection \<open>Data\<close>

text \<open>The error codes of \<^verbatim>\<open>proj.h\<close> that \<^verbatim>\<open>cea.cpp\<close> uses.\<close>

datatype proj_errno =
    PROJ_ERR_OTHER
  | PROJ_ERR_INVALID_OP_ILLEGAL_ARG_VALUE
  | PROJ_ERR_COORD_TRANSFM_OUTSIDE_PROJECTION_DOMAIN

text \<open>\<^verbatim>\<open>PJ_XY\<close> and \<^verbatim>\<open>PJ_LP\<close>: the fields \<^verbatim>\<open>x, y\<close> and \<^verbatim>\<open>lam, phi\<close>.\<close>

record PJ_XY =
  xy_x :: real
  xy_y :: real

record PJ_LP =
  lp_lam :: real
  lp_phi :: real

text \<open>\<^verbatim>\<open>struct pj_cea_data\<close>; \<^verbatim>\<open>apa\<close> is a pointer, \<open>None\<close> when null.\<close>

record pj_cea_data =
  qp :: real
  apa :: "real list option"

text \<open>
  The two pairs of function pointers that the setup stores in \<^verbatim>\<open>P->fwd\<close> and
  \<^verbatim>\<open>P->inv\<close>: \<^verbatim>\<open>cea_e_forward/cea_e_inverse\<close> or \<^verbatim>\<open>cea_s_forward/cea_s_inverse\<close>.
\<close>

datatype cea_kernel = Ellipsoidal | Spheroidal

text \<open>
  The fields of \<^verbatim>\<open>PJ\<close> that \<^verbatim>\<open>cea.cpp\<close> reads or writes. \<open>pj_lat_ts\<close> stands for the
  parameter list: \<open>None\<close> when \<^verbatim>\<open>pj_param(.., "tlat_ts").i\<close> is zero, otherwise the value
  of \<^verbatim>\<open>pj_param(.., "rlat_ts").f\<close>. \<open>pj_errno\<close> is the error state that
  \<^verbatim>\<open>proj_errno_set\<close> writes.
\<close>

record PJ =
  pj_k0 :: real
  pj_es :: real
  pj_e :: real
  pj_n :: real
  pj_lat_ts :: "real option"
  pj_opaque :: "pj_cea_data option"
  pj_fwd :: "cea_kernel option"
  pj_inv :: "cea_kernel option"
  pj_errno :: "proj_errno option"

definition EPS :: real where
  "EPS = 1 / 10 ^ 10"

definition M_HALFPI :: real where
  "M_HALFPI = pi / 2"

text \<open>
  Modelled from the spec: \<^verbatim>\<open>proj_errno_set\<close> is declared in \<^verbatim>\<open>proj_internal.h\<close>, which is
  not among the sources. It records the error code on the projection object; nothing
  else of the object changes.
\<close>

definition proj_errno_set :: "PJ \<Rightarrow> proj_errno \<Rightarrow> PJ" where
  "proj_errno_set P err = P\<lparr>pj_errno := Some err\<rparr>"

subsection \<open>The spherical kernel\<close>

definition cea_s_forward :: "PJ_LP \<Rightarrow> PJ \<Rightarrow> PJ_XY" where
  "cea_s_forward lp P =
     \<lparr>xy_x = pj_k0 P * lp_lam lp, xy_y = sin (lp_phi lp) / pj_k0 P\<rparr>"

text \<open>
  The inverse returns the point and the projection object, whose error state it may
  have set. \<^verbatim>\<open>xy.y *= P->k0\<close> is the local \<open>y\<close>.
\<close>

definition cea_s_inverse :: "PJ_XY \<Rightarrow> PJ \<Rightarrow> PJ_LP \<times> PJ" where
  "cea_s_inverse xy P =
     (let y = xy_y xy * pj_k0 P;
          t = \<bar>y\<bar>
      in if t - EPS \<le> 1
         then (\<lparr>lp_lam = xy_x xy / pj_k0 P,
                lp_phi = (if t \<ge> 1 then (if y < 0 then - M_HALFPI else M_HALFPI)
                          else arcsin y)\<rparr>, P)
         else (\<lparr>lp_lam = 0, lp_phi = 0\<rparr>,
               proj_errno_set P PROJ_ERR_COORD_TRANSFM_OUTSIDE_PROJECTION_DOMAIN))"

subsection \<open>The spherical inverse in double arithmetic\<close>




subsection \<open>The setup\<close>

text \<open>
  \<^verbatim>\<open>PJ *PJ_PROJECTION(cea)\<close>. A null result (\<^verbatim>\<open>pj_default_destructor(P, err)\<close>) is
  \<open>Inl err\<close>. Three things the function calls are not in \<^verbatim>\<open>cea.cpp\<close> and are taken as
  parameters: whether \<^verbatim>\<open>calloc\<close> succeeds, \<^verbatim>\<open>pj_authalic_lat_compute_coeffs\<close> (null
  result: \<open>None\<close>) and \<^verbatim>\<open>pj_authalic_lat_q\<close>.
\<close>

definition PJ_PROJECTION_cea ::
  "bool \<Rightarrow> (real \<Rightarrow> real list option) \<Rightarrow> (real \<Rightarrow> PJ \<Rightarrow> real) \<Rightarrow> PJ \<Rightarrow> proj_errno + PJ" where
  "PJ_PROJECTION_cea calloc_ok pj_authalic_lat_compute_coeffs pj_authalic_lat_q P =
     (if \<not> calloc_ok then Inl PROJ_ERR_OTHER
      else
        let P = P\<lparr>pj_opaque := Some \<lparr>qp = 0, apa = None\<rparr>\<rparr>
        in case (case pj_lat_ts P of
                   None \<Rightarrow> Inr (0, P)
                 | Some t \<Rightarrow>
                     (let P = P\<lparr>pj_k0 := cos t\<rparr>
                      in if pj_k0 P < 0 then Inl PROJ_ERR_INVALID_OP_ILLEGAL_ARG_VALUE
                         else Inr (t, P))) of
             Inl err \<Rightarrow> Inl err
           | Inr (t, P) \<Rightarrow>
               if pj_es P \<noteq> 0 then
                 (let t = sin t;
                      P = P\<lparr>pj_k0 := pj_k0 P / sqrt (1 - pj_es P * t * t)\<rparr>;
                      P = P\<lparr>pj_e := sqrt (pj_es P)\<rparr>
                  in case pj_authalic_lat_compute_coeffs (pj_n P) of
                       None \<Rightarrow> Inl PROJ_ERR_OTHER
                     | Some a \<Rightarrow>
                         (let P = P\<lparr>pj_opaque := Some \<lparr>qp = 0, apa = Some a\<rparr>\<rparr>;
                              P = P\<lparr>pj_opaque :=
                                      Some \<lparr>qp = pj_authalic_lat_q 1 P, apa = Some a\<rparr>\<rparr>
                          in Inr (P\<lparr>pj_inv := Some Ellipsoidal, pj_fwd := Some Ellipsoidal\<rparr>)))
               else Inr (P\<lparr>pj_inv := Some Spheroidal, pj_fwd := Some Spheroidal\<rparr>))"

section \<open>The authority registry, as test/unit/test_factory.cpp exercises it\<close>

text \<open>
  \<^verbatim>\<open>AuthorityFactory\<close> and the reference database are not among the sources; the
  test file that calls them is. The rows below are the \<^verbatim>\<open>INSERT\<close> statements of the test
  fixtures, and the two operations are modelled as far as the assertions of the tests
  and \<section>4.2, \<section>4.3 of the specification determine them.
\<close>

subsection \<open>Exceptions\<close>

datatype exception = FactoryException | NoSuchAuthorityCodeException


subsection \<open>createObject\<close>

text \<open>The object tables that the fixture \<^verbatim>\<open>populateWithFakeEPSG\<close> fills.\<close>

datatype object_table =
    T_unit_of_measure | T_extent | T_prime_meridian | T_ellipsoid
  | T_geodetic_datum | T_vertical_datum | T_geodetic_crs | T_vertical_crs
  | T_conversion | T_projected_crs | T_compound_crs
  | T_helmert_transformation | T_grid_transformation | T_other_transformation
  | T_concatenated_operation

text \<open>A row of an object table: the table, \<^verbatim>\<open>auth_name\<close> and \<^verbatim>\<open>code\<close>.\<close>

type_synonym object_row = "object_table \<times> string \<times> string"

text \<open>
  Modelled from the spec: the lookup of \<section>4.2 (``tries every known table''), which is
  not among the sources. The tables that hold a code under an authority, in the order
  of the rows.
\<close>

definition tables_with_code :: "string \<Rightarrow> object_row list \<Rightarrow> string \<Rightarrow> object_table list" where
  "tables_with_code auth db code =
     map fst (filter (\<lambda>(t, a, c). a = auth \<and> c = code) db)"

text \<open>
  Modelled from the spec: the body of \<^verbatim>\<open>AuthorityFactory::createObject\<close> is not among the
  sources. \<section>4.2 gives the lookup in every known table and the failure with
  \<^verbatim>\<open>NoSuchAuthorityCodeException\<close> when none holds the code. The last case is the one the
  test \<^verbatim>\<open>AuthorityFactory_createObject\<close> asserts: code 4326 is held by two tables (an
  area and a CRS) and \<^verbatim>\<open>createObject("4326")\<close> throws \<^verbatim>\<open>FactoryException\<close>.

  When one table holds the code, the object of that row is constructed. \<open>construct_object\<close>
  stands for the typed accessors (\<^verbatim>\<open>createUnitOfMeasure\<close>, \<^verbatim>\<open>createExtent\<close>,
  \<^verbatim>\<open>createGeodeticCRS\<close>, ..., \<^verbatim>\<open>createCoordinateOperation\<close>), none of which is among the
  sources: by \<section>4.2 the construction of a row returns the object or fails, with
  \<^verbatim>\<open>FactoryException\<close> on a malformed or inconsistent record and with
  \<^verbatim>\<open>NoSuchAuthorityCodeException\<close> when a code that the record depends on is absent. Its
  failure is the failure of \<^verbatim>\<open>createObject\<close>.
\<close>

definition createObject ::
  "(object_row \<Rightarrow> exception + 'obj) \<Rightarrow> string \<Rightarrow> object_row list \<Rightarrow> string
     \<Rightarrow> exception + 'obj" where
  "createObject construct_object auth db code =
     (case tables_with_code auth db code of
        [] \<Rightarrow> Inl NoSuchAuthorityCodeException
      | [t] \<Rightarrow> construct_object (t, auth, code)
      | _ \<Rightarrow> Inl FactoryException)"

text \<open>The object rows of \<^verbatim>\<open>populateWithFakeEPSG\<close>, in the order of insertion.\<close>

definition fake_EPSG_objects :: "object_row list" where
  "fake_EPSG_objects =
     [(T_unit_of_measure, ''EPSG'', ''9001''),
      (T_unit_of_measure, ''EPSG'', ''9102''),
      (T_unit_of_measure, ''EPSG'', ''9122''),
      (T_extent, ''EPSG'', ''1262''),
      (T_prime_meridian, ''EPSG'', ''8901''),
      (T_ellipsoid, ''EPSG'', ''7030''),
      (T_geodetic_datum, ''EPSG'', ''6326''),
      (T_vertical_datum, ''EPSG'', ''1027''),
      (T_geodetic_crs, ''EPSG'', ''4326''),
      (T_vertical_crs, ''EPSG'', ''3855''),
      (T_unit_of_measure, ''EPSG'', ''9201''),
      (T_extent, ''EPSG'', ''1933''),
      (T_conversion, ''EPSG'', ''16031''),
      (T_extent, ''EPSG'', ''2060''),
      (T_projected_crs, ''EPSG'', ''32631''),
      (T_compound_crs, ''EPSG'', ''MY_COMPOUND''),
      (T_helmert_transformation, ''EPSG'', ''DUMMY_HELMERT''),
      (T_grid_transformation, ''EPSG'', ''DUMMY_GRID_TRANSFORMATION''),
      (T_unit_of_measure, ''EPSG'', ''9110''),
      (T_other_transformation, ''EPSG'', ''DUMMY_OTHER_TRANSFORMATION''),
      (T_concatenated_operation, ''EPSG'', ''DUMMY_CONCATENATED'')]"


text \<open>
  A construction for the rows of a fixture whose records are all well formed: it
  succeeds on every row, and the object is identified with its row.
\<close>

definition construct_well_formed :: "'row \<Rightarrow> exception + 'row" where
  "construct_well_formed row = Inr row"

subsection \<open>Candidate operations and their ranking\<close>

text \<open>
  A row of table \<^verbatim>\<open>extent\<close>: the code and the bounding box in degrees (the name and
  the description are left out). The box is absent (SQL \<^verbatim>\<open>NULL\<close>) for an extent that is
  only described in words, such as the extent 1361 of the test
  \<^verbatim>\<open>AuthorityFactory_createExtent_no_bbox\<close>.
\<close>

record bounding_box =
  south_lat :: real
  north_lat :: real
  west_lon :: real
  east_lon :: real

record extent =
  extent_code :: string
  extent_bbox :: "bounding_box option"

text \<open>
  A registered operation between two CRS: a row of \<^verbatim>\<open>grid_transformation\<close>,
  \<^verbatim>\<open>helmert_transformation\<close>, \<^verbatim>\<open>other_transformation\<close> or \<^verbatim>\<open>concatenated_operation\<close>,
  joined with the extent that its row of table \<^verbatim>\<open>usage\<close> names. A CRS is an
  (authority, code) pair; \<open>op_accuracy\<close> is \<open>None\<close> for SQL \<^verbatim>\<open>NULL\<close>. The parameters of
  the operation are left out.
\<close>

record coordinate_operation =
  op_auth :: string
  op_code :: string
  op_source :: "string \<times> string"
  op_target :: "string \<times> string"
  op_accuracy :: "real option"
  op_extent :: extent
  op_deprecated :: bool

text \<open>
  Modelled from the spec: the area of use is ``computed from bbox surface area''
  (\<section>4.3 step 7); the formula itself, which a test calls ``our approx formula'', is not
  among the sources. The surface of a box on the sphere is proportional to the
  difference of the sines of its bounding latitudes times its width in longitude; the
  constant factor is left out. A box whose east bound is less than its west bound
  crosses the antimeridian, and its width is taken around the globe.
\<close>

definition bbox_area :: "bounding_box \<Rightarrow> real" where
  "bbox_area b =
     (sin (north_lat b * pi / 180) - sin (south_lat b * pi / 180))
     * ((if east_lon b < west_lon b then east_lon b + 360 else east_lon b) - west_lon b)"

text \<open>The area of use of an operation: none when its extent has no bounding box.\<close>

definition op_area :: "coordinate_operation \<Rightarrow> real option" where
  "op_area op = map_option bbox_area (extent_bbox (op_extent op))"

text \<open>
  Modelled from the spec: ``numerically smaller accuracy first, with operations of
  unknown/zero accuracy treated as worst''. The rank is a pair compared
  lexicographically: known accuracies first, by value.
\<close>

definition accuracy_rank :: "coordinate_operation \<Rightarrow> bool \<times> real" where
  "accuracy_rank op =
     (case op_accuracy op of
        None \<Rightarrow> (True, 0)
      | Some a \<Rightarrow> (a = 0, a))"


text \<open>
  Modelled from the spec: the sort key of the resolution, which is not among the
  sources. It has the keys of \<section>4.3 step 7, with the area key in the direction that the
  assertions of the tests follow, the larger area first:
  \<^verbatim>\<open>AuthorityFactory_test_sorting_of_coordinate_operations\<close> expects the two world-wide
  transformations before the small-extent one, and
  \<^verbatim>\<open>AuthorityFactory_createFromCoordinateReferenceSystemCodes\<close> says ``Romania has a larger
  area than Poland'' and expects Romania first. The accuracy rank follows. An operation
  without an area is put after those that have one; neither the specification nor a
  test says where it goes, and no statement below is about its place.
\<close>

definition rank_key :: "coordinate_operation \<Rightarrow> (bool \<times> real) \<times> bool \<times> real" where
  "rank_key op =
     ((case op_area op of None \<Rightarrow> (True, 0) | Some a \<Rightarrow> (False, - a)),
      accuracy_rank op)"

text \<open>
  Modelled from the spec: the query of \<section>4.3 step 2, which is not among the sources.
  The operations that a factory of authority \<open>auth\<close> (the empty string: any authority)
  finds registered from \<open>src\<close> to \<open>tgt\<close>, in the order of insertion. Deprecated rows are
  left out: the sorting test inserts four transformations, one of them deprecated, and
  expects three results.
\<close>

definition candidates ::
  "string \<Rightarrow> coordinate_operation list \<Rightarrow> string \<times> string \<Rightarrow> string \<times> string
     \<Rightarrow> coordinate_operation list" where
  "candidates auth db src tgt =
     filter (\<lambda>op. (auth = [] \<or> op_auth op = auth) \<and> op_source op = src \<and> op_target op = tgt
                \<and> \<not> op_deprecated op) db"

text \<open>The candidates in the order of their keys; the sort is stable.\<close>

definition ranked_candidates ::
  "string \<Rightarrow> coordinate_operation list \<Rightarrow> string \<times> string \<Rightarrow> string \<times> string
     \<Rightarrow> coordinate_operation list" where
  "ranked_candidates auth db src tgt = sort_key rank_key (candidates auth db src tgt)"

text \<open>
  The operation objects of a list of rows, in order. The first construction that fails
  ends the call with its exception: by \<section>4.3 no phase returns partial results. The test
  \<^verbatim>\<open>AuthorityFactory_wkt_based_transformation_not_wkt\<close> expects \<^verbatim>\<open>FactoryException\<close> from
  the resolution when the only candidate is malformed.
\<close>

fun construct_all :: "('row \<Rightarrow> exception + 'obj) \<Rightarrow> 'row list \<Rightarrow> exception + 'obj list" where
  "construct_all construct_operation [] = Inr []"
| "construct_all construct_operation (row # rows) =
     (case construct_operation row of
        Inl e \<Rightarrow> Inl e
      | Inr x \<Rightarrow>
          (case construct_all construct_operation rows of
             Inl e \<Rightarrow> Inl e
           | Inr xs \<Rightarrow> Inr (x # xs)))"

text \<open>
  Modelled from the spec: the body of
  \<^verbatim>\<open>AuthorityFactory::createFromCoordinateReferenceSystemCodes\<close> is not among the sources.
  It constructs the candidates in the order of \<section>4.3 step 7, except that the area key
  runs the way the tests assert. \<open>construct_operation\<close> stands for the construction of an
  operation object from its row (\<^verbatim>\<open>createCoordinateOperation\<close>), which is not among the
  sources either.
\<close>

definition createFromCoordinateReferenceSystemCodes ::
  "(coordinate_operation \<Rightarrow> exception + 'obj) \<Rightarrow> string \<Rightarrow> coordinate_operation list
     \<Rightarrow> string \<times> string \<Rightarrow> string \<times> string \<Rightarrow> exception + 'obj list" where
  "createFromCoordinateReferenceSystemCodes construct_operation auth db src tgt =
     construct_all construct_operation (ranked_candidates auth db src tgt)"

text \<open>The extents 1262 (World) and 2060 (a strip of six degrees) of the fixture.\<close>

definition extent_1262 :: extent where
  "extent_1262 = \<lparr>extent_code = ''1262'',
                   extent_bbox = Some \<lparr>south_lat = - 90, north_lat = 90,
                                        west_lon = - 180, east_lon = 180\<rparr>\<rparr>"







text \<open>
  The operations of \<^verbatim>\<open>populateWithFakeEPSG\<close> (authority EPSG, all from EPSG:4326 to
  EPSG:4326, extent 1262).
\<close>

definition fake_EPSG_operation :: "string \<Rightarrow> real option \<Rightarrow> coordinate_operation" where
  "fake_EPSG_operation code accuracy =
     \<lparr>op_auth = ''EPSG'', op_code = code, op_source = (''EPSG'', ''4326''),
      op_target = (''EPSG'', ''4326''), op_accuracy = accuracy, op_extent = extent_1262,
      op_deprecated = False\<rparr>"

definition fake_EPSG_operations :: "coordinate_operation list" where
  "fake_EPSG_operations =
     [fake_EPSG_operation ''DUMMY_HELMERT'' (Some 44),
      fake_EPSG_operation ''DUMMY_GRID_TRANSFORMATION'' (Some 1),
      fake_EPSG_operation ''DUMMY_OTHER_TRANSFORMATION'' (Some 0),
      fake_EPSG_operation ''DUMMY_CONCATENATED'' None]"


text \<open>
  The database of \<^verbatim>\<open>AuthorityFactory_wkt_based_transformation_not_wkt\<close>: the fake EPSG
  rows, then the row \<^verbatim>\<open>FOO\<close> of \<^verbatim>\<open>other_transformation\<close>, whose definition is the text
  \<^verbatim>\<open>invalid_wkt\<close>. The construction of this row fails with \<^verbatim>\<open>FactoryException\<close>, as
  \<section>4.2 says of malformed content; that of the other rows succeeds.
\<close>

definition FOO :: coordinate_operation where
  "FOO = \<lparr>op_auth = ''OTHER'', op_code = ''FOO'', op_source = (''EPSG'', ''4326''),
          op_target = (''EPSG'', ''4326''), op_accuracy = Some 0, op_extent = extent_1262,
          op_deprecated = False\<rparr>"

definition not_wkt_test_operations :: "coordinate_operation list" where
  "not_wkt_test_operations = fake_EPSG_operations @ [FOO]"

definition construct_not_wkt :: "coordinate_operation \<Rightarrow> exception + coordinate_operation" where
  "construct_not_wkt op = (if op_code op = ''FOO'' then Inl FactoryException else Inr op)"

section \<open>Properties of the spherical kernel\<close>

lemma EPS_pos: "0 < EPS"
  by (simp add: EPS_def)

lemma abs_sin_ge_1_cases:
  assumes "\<bar>phi\<bar> \<le> pi / 2" "1 \<le> \<bar>sin phi\<bar>"
  shows "(sin phi < 0 \<longrightarrow> phi = - (pi / 2)) \<and> (\<not> sin phi < 0 \<longrightarrow> phi = pi / 2)"
proof -
  have b: "- (pi / 2) \<le> phi" "phi \<le> pi / 2" using assms(1) by auto
  have as: "arcsin (sin phi) = phi" using b by (rule arcsin_sin)
  have le: "\<bar>sin phi\<bar> \<le> 1" by (rule abs_sin_le_one)
  show ?thesis
  proof (cases "sin phi < 0")
    case True
    then have "sin phi = - 1" using assms(2) le by linarith
    then have "phi = arcsin (- 1)" using as by simp
    then show ?thesis using True by (simp add: arcsin_minus)
  next
    case False
    then have "sin phi = 1" using assms(2) le by linarith
    then have "phi = arcsin 1" using as by simp
    then show ?thesis using False by simp
  qed
qed








text \<open>
  Claim C10. For the spherical variant with \<open>k0 > 0\<close>, in exact real arithmetic: for every
  \<open>(lam, phi)\<close> with \<open>|phi| \<le> pi/2\<close>, \<open>cea_s_forward\<close> followed by \<open>cea_s_inverse\<close> returns
  \<open>(lam, phi)\<close> and leaves the projection object, its error state included, unchanged.
\<close>

theorem cea_s_roundtrip:
  assumes "0 < pj_k0 P" "\<bar>phi\<bar> \<le> pi / 2"
  shows "cea_s_inverse (cea_s_forward \<lparr>lp_lam = lam, lp_phi = phi\<rparr> P) P
         = (\<lparr>lp_lam = lam, lp_phi = phi\<rparr>, P)"
proof -
  have k: "pj_k0 P \<noteq> 0" using assms(1) by simp
  have le: "\<bar>sin phi\<bar> - EPS \<le> 1"
    using abs_sin_le_one [of phi] EPS_pos by linarith
  have b: "- (pi / 2) \<le> phi" "phi \<le> pi / 2" using assms(2) by auto
  show ?thesis
  proof (cases "1 \<le> \<bar>sin phi\<bar>")
    case True
    from abs_sin_ge_1_cases [OF assms(2) True] show ?thesis
      using le True k
      by (auto simp add: cea_s_inverse_def cea_s_forward_def Let_def M_HALFPI_def)
  next
    case False
    then show ?thesis
      using le arcsin_sin [OF b] k
      by (simp add: cea_s_inverse_def cea_s_forward_def Let_def)
  qed
qed

text \<open>The theorem at the pole \<open>phi = pi/2\<close> and at \<open>phi = - pi/6\<close>, with \<open>k0 = 1/2\<close>.\<close>

theorem cea_s_roundtrip_witness:
  "cea_s_inverse
       (cea_s_forward \<lparr>lp_lam = 1, lp_phi = pi / 2\<rparr>
          \<lparr>pj_k0 = 1 / 2, pj_es = 0, pj_e = 0, pj_n = 0, pj_lat_ts = Some (pi / 3),
           pj_opaque = None, pj_fwd = Some Spheroidal, pj_inv = Some Spheroidal,
           pj_errno = None\<rparr>)
       \<lparr>pj_k0 = 1 / 2, pj_es = 0, pj_e = 0, pj_n = 0, pj_lat_ts = Some (pi / 3),
        pj_opaque = None, pj_fwd = Some Spheroidal, pj_inv = Some Spheroidal,
        pj_errno = None\<rparr>
     = (\<lparr>lp_lam = 1, lp_phi = pi / 2\<rparr>,
        \<lparr>pj_k0 = 1 / 2, pj_es = 0, pj_e = 0, pj_n = 0, pj_lat_ts = Some (pi / 3),
         pj_opaque = None, pj_fwd = Some Spheroidal, pj_inv = Some Spheroidal,
         pj_errno = None\<rparr>)
   \<and> cea_s_inverse
       (cea_s_forward \<lparr>lp_lam = - 2, lp_phi = - (pi / 6)\<rparr>
          \<lparr>pj_k0 = 1 / 2, pj_es = 0, pj_e = 0, pj_n = 0, pj_lat_ts = Some (pi / 3),
           pj_opaque = None, pj_fwd = Some Spheroidal, pj_inv = Some Spheroidal,
           pj_errno = None\<rparr>)
       \<lparr>pj_k0 = 1 / 2, pj_es = 0, pj_e = 0, pj_n = 0, pj_lat_ts = Some (pi / 3),
        pj_opaque = None, pj_fwd = Some Spheroidal, pj_inv = Some Spheroidal,
        pj_errno = None\<rparr>
     = (\<lparr>lp_lam = - 2, lp_phi = - (pi / 6)\<rparr>,
        \<lparr>pj_k0 = 1 / 2, pj_es = 0, pj_e = 0, pj_n = 0, pj_lat_ts = Some (pi / 3),
         pj_opaque = None, pj_fwd = Some Spheroidal, pj_inv = Some Spheroidal,
         pj_errno = None\<rparr>)"
proof -
  let ?P = "\<lparr>pj_k0 = 1 / 2, pj_es = 0, pj_e = 0, pj_n = 0, pj_lat_ts = Some (pi / 3),
        pj_opaque = None, pj_fwd = Some Spheroidal, pj_inv = Some Spheroidal,
        pj_errno = None\<rparr>"
  have k: "0 < pj_k0 ?P" by simp
  have p1: "\<bar>pi / 2\<bar> \<le> pi / 2" using pi_gt_zero by simp
  have p2: "\<bar>- (pi / 6)\<bar> \<le> pi / 2" using pi_gt_zero by simp
  from cea_s_roundtrip [OF k p1, of 1] cea_s_roundtrip [OF k p2, of "- 2"]
  show ?thesis by simp
qed

section \<open>Properties of the setup\<close>

lemma cos_neg_between:
  fixes t :: real
  assumes "pi / 2 < \<bar>t\<bar>" "\<bar>t\<bar> < 3 * pi / 2"
  shows "cos t < 0"
proof -
  have "- (pi / 2) < \<bar>t\<bar> - pi" "\<bar>t\<bar> - pi < pi / 2" using assms by auto
  then have "0 < cos (\<bar>t\<bar> - pi)" by (rule cos_gt_zero_pi)
  then have "cos \<bar>t\<bar> < 0" by (simp add: cos_minus_pi)
  then show ?thesis by (simp only: cos_abs_real)
qed

lemma ell_k0: "(1 / 2) / sqrt (1 - 2 / 3 * (sqrt 3 / 2) * (sqrt 3 / 2)) \<noteq> (1 / 2 :: real)"
proof -
  have "2 / 3 * (sqrt 3 / 2) * (sqrt 3 / 2) = (2 / 3) * ((sqrt 3 * sqrt 3) / 4)" by simp
  also have "\<dots> = 1 / 2" by simp
  finally have e: "1 - 2 / 3 * (sqrt 3 / 2) * (sqrt 3 / 2) = 1 / 2" by simp
  have "sqrt (1 / 2) \<noteq> 1" by (simp add: real_sqrt_eq_1_iff)
  then show ?thesis unfolding e by (simp add: field_simps)
qed

text \<open>
  Claim C8, as amended. When \<^verbatim>\<open>lat_ts\<close> is given with \<open>90\<degree> < |lat_ts| < 270\<degree>\<close>, the setup
  returns no projection: it fails with \<^verbatim>\<open>PROJ_ERR_INVALID_OP_ILLEGAL_ARG_VALUE\<close> (with
  \<^verbatim>\<open>PROJ_ERR_OTHER\<close> when the allocation before the check has failed), before any
  coordinate is transformed. When the setup succeeds with \<^verbatim>\<open>lat_ts\<close> given, then
  \<open>cos lat_ts \<ge> 0\<close>; for a sphere (\<open>es = 0\<close>) it has established \<open>k0 = cos lat_ts\<close> and the
  spherical kernel, for an ellipsoid \<open>k0 = cos lat_ts / sqrt (1 - es * sin\<^sup>2 lat_ts)\<close> and
  the ellipsoidal kernel.
\<close>

theorem cea_setup_lat_ts:
  assumes "pj_lat_ts P = Some t"
  shows "(pi / 2 < \<bar>t\<bar> \<and> \<bar>t\<bar> < 3 * pi / 2 \<longrightarrow>
            PJ_PROJECTION_cea c coeffs q P
            = Inl (if c then PROJ_ERR_INVALID_OP_ILLEGAL_ARG_VALUE else PROJ_ERR_OTHER))
       \<and> (\<forall>P'. PJ_PROJECTION_cea c coeffs q P = Inr P' \<longrightarrow>
            0 \<le> cos t
          \<and> (pj_es P = 0 \<longrightarrow>
                pj_k0 P' = cos t \<and> pj_inv P' = Some Spheroidal \<and> pj_fwd P' = Some Spheroidal)
          \<and> (pj_es P \<noteq> 0 \<longrightarrow>
                pj_k0 P' = cos t / sqrt (1 - pj_es P * sin t * sin t)
              \<and> pj_inv P' = Some Ellipsoidal \<and> pj_fwd P' = Some Ellipsoidal))"
proof (intro conjI allI impI)
  assume r: "pi / 2 < \<bar>t\<bar> \<and> \<bar>t\<bar> < 3 * pi / 2"
  then have neg: "cos t < 0" using cos_neg_between by blast
  show "PJ_PROJECTION_cea c coeffs q P
            = Inl (if c then PROJ_ERR_INVALID_OP_ILLEGAL_ARG_VALUE else PROJ_ERR_OTHER)"
    using assms neg by (simp add: PJ_PROJECTION_cea_def Let_def)
next
  fix P' assume ok: "PJ_PROJECTION_cea c coeffs q P = Inr P'"
  show "0 \<le> cos t"
    using assms ok by (auto simp add: PJ_PROJECTION_cea_def Let_def split: if_splits)
  show "pj_k0 P' = cos t" if "pj_es P = 0"
    using assms ok that by (auto simp add: PJ_PROJECTION_cea_def Let_def split: if_splits)
  show "pj_inv P' = Some Spheroidal" if "pj_es P = 0"
    using assms ok that by (auto simp add: PJ_PROJECTION_cea_def Let_def split: if_splits)
  show "pj_fwd P' = Some Spheroidal" if "pj_es P = 0"
    using assms ok that by (auto simp add: PJ_PROJECTION_cea_def Let_def split: if_splits)
  show "pj_k0 P' = cos t / sqrt (1 - pj_es P * sin t * sin t)" if "pj_es P \<noteq> 0"
    using assms ok that
    by (auto simp add: PJ_PROJECTION_cea_def Let_def split: if_splits option.splits)
  show "pj_inv P' = Some Ellipsoidal" if "pj_es P \<noteq> 0"
    using assms ok that
    by (auto simp add: PJ_PROJECTION_cea_def Let_def split: if_splits option.splits)
  show "pj_fwd P' = Some Ellipsoidal" if "pj_es P \<noteq> 0"
    using assms ok that
    by (auto simp add: PJ_PROJECTION_cea_def Let_def split: if_splits option.splits)
qed

text \<open>
  The theorem at \<open>lat_ts = pi\<close> (180\<degree>, rejected) and at \<open>lat_ts = pi/3\<close> (60\<degree>, accepted
  on a sphere with \<open>k0 = 1/2\<close>).
\<close>

theorem cea_setup_lat_ts_witness:
  "PJ_PROJECTION_cea True (\<lambda>n. None) (\<lambda>s P. 0)
        \<lparr>pj_k0 = 1, pj_es = 0, pj_e = 0, pj_n = 0, pj_lat_ts = Some pi,
         pj_opaque = None, pj_fwd = None, pj_inv = None, pj_errno = None\<rparr>
      = Inl PROJ_ERR_INVALID_OP_ILLEGAL_ARG_VALUE
   \<and> PJ_PROJECTION_cea True (\<lambda>n. None) (\<lambda>s P. 0)
        \<lparr>pj_k0 = 1, pj_es = 0, pj_e = 0, pj_n = 0, pj_lat_ts = Some (pi / 3),
         pj_opaque = None, pj_fwd = None, pj_inv = None, pj_errno = None\<rparr>
      = Inr \<lparr>pj_k0 = 1 / 2, pj_es = 0, pj_e = 0, pj_n = 0, pj_lat_ts = Some (pi / 3),
         pj_opaque = Some \<lparr>qp = 0, apa = None\<rparr>, pj_fwd = Some Spheroidal,
         pj_inv = Some Spheroidal, pj_errno = None\<rparr>
   \<and> pj_k0 \<lparr>pj_k0 = 1 / 2, pj_es = 0, pj_e = 0, pj_n = 0, pj_lat_ts = Some (pi / 3),
         pj_opaque = Some \<lparr>qp = 0, apa = None\<rparr>, pj_fwd = Some Spheroidal,
         pj_inv = Some Spheroidal, pj_errno = None\<rparr> = cos (pi / 3)"
proof -
  let ?Ppi = "\<lparr>pj_k0 = 1, pj_es = 0, pj_e = 0, pj_n = 0, pj_lat_ts = Some pi,
         pj_opaque = None, pj_fwd = None, pj_inv = None, pj_errno = None\<rparr>"
  let ?P3 = "\<lparr>pj_k0 = 1, pj_es = 0, pj_e = 0, pj_n = 0, pj_lat_ts = Some (pi / 3),
         pj_opaque = None, pj_fwd = None, pj_inv = None, pj_errno = None\<rparr>"
  let ?R3 = "\<lparr>pj_k0 = 1 / 2, pj_es = 0, pj_e = 0, pj_n = 0, pj_lat_ts = Some (pi / 3),
         pj_opaque = Some \<lparr>qp = 0, apa = None\<rparr>, pj_fwd = Some Spheroidal,
         pj_inv = Some Spheroidal, pj_errno = None\<rparr>"
  have l1: "pj_lat_ts ?Ppi = Some pi" by simp
  have l3: "pj_lat_ts ?P3 = Some (pi / 3)" by simp
  have r: "pi / 2 < \<bar>pi\<bar> \<and> \<bar>pi\<bar> < 3 * pi / 2" using pi_gt_zero by simp
  have ok: "PJ_PROJECTION_cea True (\<lambda>n. None) (\<lambda>s P. 0) ?P3 = Inr ?R3"
    by (simp add: PJ_PROJECTION_cea_def cos_60)
  have es: "pj_es ?P3 = 0" by simp
  from cea_setup_lat_ts [OF l1, of True "\<lambda>n. None" "\<lambda>s P. 0"] r
  have 1: "PJ_PROJECTION_cea True (\<lambda>n. None) (\<lambda>s P. 0) ?Ppi
      = Inl PROJ_ERR_INVALID_OP_ILLEGAL_ARG_VALUE"
    by simp
  from cea_setup_lat_ts [OF l3, of True "\<lambda>n. None" "\<lambda>s P. 0"] ok es
  have 2: "pj_k0 ?R3 = cos (pi / 3)"
    by blast
  from 1 ok 2 show ?thesis by blast
qed

text \<open>
  Claim C8 as it is stated fails twice. With \<open>lat_ts = 2 * pi\<close> (360\<degree>), whose absolute value
  exceeds 90\<degree>, the setup of a sphere succeeds with \<open>k0 = 1\<close>: the check is \<open>k0 < 0\<close>, and
  the cosine is negative only between 90\<degree> and 270\<degree> (modulo 360\<degree>). With
  \<open>lat_ts = pi/3\<close> on an ellipsoid of \<open>es = 2/3\<close> the setup succeeds and \<open>k0\<close> is not
  \<open>cos lat_ts\<close>: the ellipsoidal branch divides it by \<open>sqrt (1 - es * sin\<^sup>2 lat_ts)\<close>.
\<close>

theorem cea_setup_counterexample:
  "pi / 2 < \<bar>2 * pi\<bar>
   \<and> PJ_PROJECTION_cea True (\<lambda>n. None) (\<lambda>s P. 0)
        \<lparr>pj_k0 = 1, pj_es = 0, pj_e = 0, pj_n = 0, pj_lat_ts = Some (2 * pi),
         pj_opaque = None, pj_fwd = None, pj_inv = None, pj_errno = None\<rparr>
      = Inr \<lparr>pj_k0 = 1, pj_es = 0, pj_e = 0, pj_n = 0, pj_lat_ts = Some (2 * pi),
         pj_opaque = Some \<lparr>qp = 0, apa = None\<rparr>, pj_fwd = Some Spheroidal,
         pj_inv = Some Spheroidal, pj_errno = None\<rparr>
   \<and> (case PJ_PROJECTION_cea True (\<lambda>n. Some []) (\<lambda>s P. 0)
        \<lparr>pj_k0 = 1, pj_es = 2 / 3, pj_e = 0, pj_n = 0, pj_lat_ts = Some (pi / 3),
         pj_opaque = None, pj_fwd = None, pj_inv = None, pj_errno = None\<rparr> of
         Inl err \<Rightarrow> False
       | Inr P' \<Rightarrow> pj_k0 P' \<noteq> cos (pi / 3))"
proof (intro conjI)
  show "pi / 2 < \<bar>2 * pi\<bar>" using pi_gt_zero by simp
  show "PJ_PROJECTION_cea True (\<lambda>n. None) (\<lambda>s P. 0)
        \<lparr>pj_k0 = 1, pj_es = 0, pj_e = 0, pj_n = 0, pj_lat_ts = Some (2 * pi),
         pj_opaque = None, pj_fwd = None, pj_inv = None, pj_errno = None\<rparr>
      = Inr \<lparr>pj_k0 = 1, pj_es = 0, pj_e = 0, pj_n = 0, pj_lat_ts = Some (2 * pi),
         pj_opaque = Some \<lparr>qp = 0, apa = None\<rparr>, pj_fwd = Some Spheroidal,
         pj_inv = Some Spheroidal, pj_errno = None\<rparr>"
    by (simp add: PJ_PROJECTION_cea_def)
  show "case PJ_PROJECTION_cea True (\<lambda>n. Some []) (\<lambda>s P. 0)
        \<lparr>pj_k0 = 1, pj_es = 2 / 3, pj_e = 0, pj_n = 0, pj_lat_ts = Some (pi / 3),
         pj_opaque = None, pj_fwd = None, pj_inv = None, pj_errno = None\<rparr> of
         Inl err \<Rightarrow> False
       | Inr P' \<Rightarrow> pj_k0 P' \<noteq> cos (pi / 3)"
    using ell_k0 by (simp add: PJ_PROJECTION_cea_def Let_def cos_60 sin_60)
qed

section \<open>Properties of createObject\<close>







text \<open>
  The model against the assertions of \<^verbatim>\<open>AuthorityFactory_test_with_fake_EPSG_database\<close>
  and the first assertion of \<^verbatim>\<open>AuthorityFactory_createObject\<close>: each code is dispatched
  to the construction of the object of the expected table.
\<close>

lemma createObject_fake_EPSG:
  "createObject c ''EPSG'' fake_EPSG_objects ''9001'' = c (T_unit_of_measure, ''EPSG'', ''9001'')"
  "createObject c ''EPSG'' fake_EPSG_objects ''1262'' = c (T_extent, ''EPSG'', ''1262'')"
  "createObject c ''EPSG'' fake_EPSG_objects ''8901'' = c (T_prime_meridian, ''EPSG'', ''8901'')"
  "createObject c ''EPSG'' fake_EPSG_objects ''7030'' = c (T_ellipsoid, ''EPSG'', ''7030'')"
  "createObject c ''EPSG'' fake_EPSG_objects ''6326'' = c (T_geodetic_datum, ''EPSG'', ''6326'')"
  "createObject c ''EPSG'' fake_EPSG_objects ''1027'' = c (T_vertical_datum, ''EPSG'', ''1027'')"
  "createObject c ''EPSG'' fake_EPSG_objects ''4326'' = c (T_geodetic_crs, ''EPSG'', ''4326'')"
  "createObject c ''EPSG'' fake_EPSG_objects ''3855'' = c (T_vertical_crs, ''EPSG'', ''3855'')"
  "createObject c ''EPSG'' fake_EPSG_objects ''16031'' = c (T_conversion, ''EPSG'', ''16031'')"
  "createObject c ''EPSG'' fake_EPSG_objects ''32631'' = c (T_projected_crs, ''EPSG'', ''32631'')"
  "createObject c ''EPSG'' fake_EPSG_objects ''MY_COMPOUND''
     = c (T_compound_crs, ''EPSG'', ''MY_COMPOUND'')"
  "createObject c ''EPSG'' fake_EPSG_objects ''DUMMY_HELMERT''
     = c (T_helmert_transformation, ''EPSG'', ''DUMMY_HELMERT'')"
  "createObject c ''EPSG'' fake_EPSG_objects ''DUMMY_GRID_TRANSFORMATION''
     = c (T_grid_transformation, ''EPSG'', ''DUMMY_GRID_TRANSFORMATION'')"
  "createObject c ''EPSG'' fake_EPSG_objects ''DUMMY_OTHER_TRANSFORMATION''
     = c (T_other_transformation, ''EPSG'', ''DUMMY_OTHER_TRANSFORMATION'')"
  "createObject c ''EPSG'' fake_EPSG_objects ''DUMMY_CONCATENATED''
     = c (T_concatenated_operation, ''EPSG'', ''DUMMY_CONCATENATED'')"
  "createObject c ''EPSG'' fake_EPSG_objects ''-1'' = Inl NoSuchAuthorityCodeException"
  by (simp_all add: fake_EPSG_objects_def createObject_def tables_with_code_def)


section \<open>Properties of the ranking\<close>




text \<open>
  No box within the ranges of latitude and longitude has a larger area than the world
  extent 1262, whose area is 720.
\<close>

lemma bbox_area_le_world:
  assumes "- 90 \<le> south_lat b" "south_lat b \<le> north_lat b" "north_lat b \<le> 90"
    and "- 180 \<le> west_lon b" "west_lon b \<le> 180" "- 180 \<le> east_lon b" "east_lon b \<le> 180"
  shows "0 \<le> bbox_area b \<and> bbox_area b \<le> 720"
proof -
  let ?h = "sin (north_lat b * pi / 180) - sin (south_lat b * pi / 180)"
  let ?w = "(if east_lon b < west_lon b then east_lon b + 360 else east_lon b) - west_lon b"
  have "(- 90) * pi \<le> south_lat b * pi"
    using assms(1) pi_gt_zero by (intro mult_right_mono) auto
  then have s: "- (pi / 2) \<le> south_lat b * pi / 180" by simp
  have "north_lat b * pi \<le> 90 * pi"
    using assms(3) pi_gt_zero by (intro mult_right_mono) auto
  then have n: "north_lat b * pi / 180 \<le> pi / 2" by simp
  have "south_lat b * pi \<le> north_lat b * pi"
    using assms(2) pi_gt_zero by (intro mult_right_mono) auto
  then have sn: "south_lat b * pi / 180 \<le> north_lat b * pi / 180" by simp
  have "sin (south_lat b * pi / 180) \<le> sin (north_lat b * pi / 180)"
    using s sn n by (rule sin_monotone_2pi_le)
  then have h0: "0 \<le> ?h" by simp
  have h2: "?h \<le> 2"
    using sin_le_one [of "north_lat b * pi / 180"] sin_ge_minus_one [of "south_lat b * pi / 180"]
    by linarith
  have w0: "0 \<le> ?w" using assms(4-7) by auto
  have w360: "?w \<le> 360" using assms(4-7) by auto
  have "?h * ?w \<le> 2 * 360" using h0 h2 w0 w360 by (intro mult_mono) auto
  moreover have "0 \<le> ?h * ?w" using h0 w0 by (rule mult_nonneg_nonneg)
  ultimately show ?thesis by (simp add: bbox_area_def)
qed







text \<open>
  The model fails as \<^verbatim>\<open>AuthorityFactory_wkt_based_transformation_not_wkt\<close> asserts, and
  returns the single operation that \<^verbatim>\<open>AuthorityFactory_wkt_based_transformation\<close> expects
  when the same row is well formed.
\<close>

lemma not_wkt_test_result:
  "createFromCoordinateReferenceSystemCodes construct_not_wkt ''OTHER''
       not_wkt_test_operations (''EPSG'', ''4326'') (''EPSG'', ''4326'')
     = Inl FactoryException"
  "createFromCoordinateReferenceSystemCodes construct_well_formed ''OTHER''
       not_wkt_test_operations (''EPSG'', ''4326'') (''EPSG'', ''4326'')
     = Inr [FOO]"
  by (simp_all add: createFromCoordinateReferenceSystemCodes_def ranked_candidates_def
        candidates_def not_wkt_test_operations_def fake_EPSG_operations_def
        fake_EPSG_operation_def FOO_def construct_not_wkt_def construct_well_formed_def)







end
